theory Spec2Isabelle
  imports Complex_Main
begin

section \<open>PDF2PNG: path discovery and conversion\<close>

text \<open>
  The development embeds \<^verbatim>\<open>logic.py\<close> (\<^verbatim>\<open>find_pdfs\<close>, \<^verbatim>\<open>convert_pdf\<close>), the
  command-line driver \<^verbatim>\<open>cli.py\<close> (\<^verbatim>\<open>_main\<close>) and the password handling of
  \<^verbatim>\<open>gui.py\<close> (\<^verbatim>\<open>App._start\<close>).  \<^verbatim>\<open>main.py\<close> repeats the same two functions and
  the same driver verbatim.

  The program talks to two collaborators: the file system (through \<^verbatim>\<open>pathlib\<close>) and the
  rendering library (\<^verbatim>\<open>pymupdf\<close>).  Both are modelled as data: a file system is a finite
  map from absolute paths to nodes, and a PDF file carries the document that the
  library would read from it.  Exceptions are values.
\<close>

subsection \<open>Exceptions\<close>

datatype error =
    RuntimeError          \<comment> \<open>\<^verbatim>\<open>Path.expanduser\<close>: home directory cannot be determined\<close>
  | FileNotFoundError
  | FileExistsError
  | NotADirectoryError
  | FileDataError         \<comment> \<open>\<^verbatim>\<open>pymupdf.open\<close>: not a readable document\<close>
  | RenderError           \<comment> \<open>\<^verbatim>\<open>load_page\<close> / \<^verbatim>\<open>get_pixmap\<close> failed\<close>
  | SaveError             \<comment> \<open>\<^verbatim>\<open>Pixmap.save\<close> could not write the target\<close>

subsection \<open>Paths\<close>

text \<open>
  A \<^verbatim>\<open>pathlib.Path\<close> that has been resolved is absolute and normalised; it is
  represented by its components below the root, outermost first.  The root is \<open>[]\<close>.
\<close>

type_synonym path = "string list"

definition name :: "path \<Rightarrow> string" where
  "name p = (if p = [] then [] else last p)"

definition parent :: "path \<Rightarrow> path" where
  "parent p = butlast p"

text \<open>\<^verbatim>\<open>str.rfind\<close> for a single character: the last index, if any.\<close>

definition rfind :: "char \<Rightarrow> string \<Rightarrow> nat option" where
  "rfind c s =
     (if c \<in> set s then Some (length s - 1 - length (takeWhile (\<lambda>x. x \<noteq> c) (rev s)))
      else None)"

text \<open>
  \<^verbatim>\<open>PurePath.suffix\<close> and \<^verbatim>\<open>PurePath.stem\<close>:
  \<^verbatim>\<open>i = name.rfind('.'); if 0 < i < len(name) - 1: name[i:] / name[:i] else '' / name\<close>.
\<close>

definition suffix_of :: "path \<Rightarrow> string" where
  "suffix_of p =
     (case rfind (CHR ''.'') (name p) of
        None \<Rightarrow> []
      | Some i \<Rightarrow> if 0 < i \<and> i + 1 < length (name p) then drop i (name p) else [])"

definition stem :: "path \<Rightarrow> string" where
  "stem p =
     (case rfind (CHR ''.'') (name p) of
        None \<Rightarrow> name p
      | Some i \<Rightarrow> if 0 < i \<and> i + 1 < length (name p) then take i (name p) else name p)"

text \<open>\<^verbatim>\<open>str.lower\<close>, on the ASCII letters.\<close>

definition lower_char :: "char \<Rightarrow> char" where
  "lower_char c =
     (let n = (of_char c :: nat) in if 65 \<le> n \<and> n \<le> 90 then char_of (n + 32) else c)"

definition lower :: "string \<Rightarrow> string" where
  "lower s = map lower_char s"

text \<open>\<^verbatim>\<open>str.split(c)\<close>.\<close>

fun split_on :: "char \<Rightarrow> string \<Rightarrow> string list" where
  "split_on c [] = [[]]"
| "split_on c (x # xs) =
     (if x = c then [] # split_on c xs
      else (case split_on c xs of [] \<Rightarrow> [[x]] | y # ys \<Rightarrow> (x # y) # ys))"

text \<open>
  \<^verbatim>\<open>Path(raw)\<close> on POSIX: the components between slashes, without the empty ones and
  without \<^verbatim>\<open>.\<close>; the path is absolute when the text starts with a slash.
\<close>

definition path_parts :: "string \<Rightarrow> string list" where
  "path_parts raw = filter (\<lambda>s. s \<noteq> [] \<and> s \<noteq> ''.'') (split_on (CHR ''/'') raw)"

definition is_absolute :: "string \<Rightarrow> bool" where
  "is_absolute raw = (take 1 raw = ''/'')"

subsection \<open>The environment of path resolution\<close>

text \<open>
  \<open>home_dir\<close> gives the home directory of a user name (the empty name is the current
  user), \<open>cwd\<close> the working directory, and \<open>descendants p\<close> the entries below the
  directory \<open>p\<close>, at any depth, in the order the operating system yields them.
  The model has no symbolic links, so resolving an absolute path only normalises it.
\<close>

record env =
  home_dir :: "string \<Rightarrow> path option"
  cwd :: path
  descendants :: "path \<Rightarrow> path list"

text \<open>
  The pattern \<^verbatim>\<open>*.[Pp][Dd][Ff]\<close> on an entry's name, and
  \<^verbatim>\<open>p.rglob("*.[Pp][Dd][Ff]")\<close>: the entries below \<open>p\<close> whose name matches.
\<close>

definition glob_pdf :: "string \<Rightarrow> bool" where
  "glob_pdf nm =
     (case rev nm of
        f # d # p # dot # front \<Rightarrow>
          dot = CHR ''.'' \<and> p \<in> {CHR ''P'', CHR ''p''} \<and> d \<in> {CHR ''D'', CHR ''d''} \<and>
          f \<in> {CHR ''F'', CHR ''f''}
      | _ \<Rightarrow> False)"

definition rglob_pdf :: "env \<Rightarrow> path \<Rightarrow> path list" where
  "rglob_pdf e p = filter (\<lambda>q. glob_pdf (name q)) (descendants e p)"

text \<open>
  \<^verbatim>\<open>Path.expanduser\<close>: a relative path whose first component starts with \<^verbatim>\<open>~\<close> has
  that component replaced by the user's home directory; when the home directory cannot
  be determined the call raises \<^verbatim>\<open>RuntimeError\<close>.  The result is the pair of the
  absolute flag and the components.
\<close>

definition expanduser :: "env \<Rightarrow> string \<Rightarrow> error + bool \<times> string list" where
  "expanduser e raw =
     (let parts = path_parts raw in
      if \<not> is_absolute raw \<and> parts \<noteq> [] \<and> take 1 (hd parts) = ''~'' then
        (case home_dir e (tl (hd parts)) of
           None \<Rightarrow> Inl RuntimeError
         | Some h \<Rightarrow> Inr (True, h @ tl parts))
      else Inr (is_absolute raw, parts))"

text \<open>\<^verbatim>\<open>Path.resolve\<close> without symbolic links: make absolute, then fold away \<^verbatim>\<open>..\<close>.\<close>

definition normalise :: "path \<Rightarrow> string list \<Rightarrow> path" where
  "normalise base parts =
     fold (\<lambda>c acc. if c = ''..'' then butlast acc else acc @ [c]) parts base"

definition resolve :: "env \<Rightarrow> bool \<times> string list \<Rightarrow> path" where
  "resolve e ap = (if fst ap then normalise [] (snd ap) else normalise (cwd e) (snd ap))"

text \<open>\<^verbatim>\<open>Path(raw).expanduser().resolve()\<close>\<close>

definition resolve_input :: "env \<Rightarrow> string \<Rightarrow> error + path" where
  "resolve_input e raw =
     (case expanduser e raw of Inl err \<Rightarrow> Inl err | Inr ap \<Rightarrow> Inr (resolve e ap))"

subsection \<open>Documents and the file system\<close>

text \<open>
  A page either fails to load or render, or renders to a pixmap; the pixmap records
  which page it shows and with which matrix and alpha flag it was rendered.
\<close>

datatype page = Bad_page | Good_page nat

datatype matrix = Matrix rat rat

record pixmap =
  px_page :: nat
  px_matrix :: matrix
  px_alpha :: bool

record document =
  needs_pass :: bool
  passwords :: "string list"
  pages :: "page list"

datatype content = Pdf document | Png pixmap | Data string

datatype node = Dir | File content

type_synonym filesystem = "path \<rightharpoonup> node"

definition is_file :: "filesystem \<Rightarrow> path \<Rightarrow> bool" where
  "is_file fs p = (case fs p of Some (File c) \<Rightarrow> True | _ \<Rightarrow> False)"

definition is_dir :: "filesystem \<Rightarrow> path \<Rightarrow> bool" where
  "is_dir fs p = (fs p = Some Dir)"

definition exists :: "filesystem \<Rightarrow> path \<Rightarrow> bool" where
  "exists fs p = (fs p \<noteq> None)"

subsection \<open>\<^verbatim>\<open>find_pdfs\<close>\<close>

text \<open>
  The loop state is the pair \<^verbatim>\<open>(seen, out)\<close>.  \<open>visit\<close> is the body
  \<^verbatim>\<open>if p not in seen: seen.add(p); out.append(p)\<close>.
\<close>

definition visit :: "path \<Rightarrow> path set \<times> path list \<Rightarrow> path set \<times> path list" where
  "visit p st = (if p \<notin> fst st then (insert p (fst st), snd st @ [p]) else st)"

fun find_pdfs_from ::
  "env \<Rightarrow> filesystem \<Rightarrow> string list \<Rightarrow> path set \<times> path list \<Rightarrow> error + path list" where
  "find_pdfs_from e fs [] st = Inr (snd st)"
| "find_pdfs_from e fs (raw # rest) st =
     (case resolve_input e raw of
        Inl err \<Rightarrow> Inl err
      | Inr p \<Rightarrow>
          if is_file fs p \<and> lower (suffix_of p) = ''.pdf'' then
            find_pdfs_from e fs rest (visit p st)
          else if is_dir fs p then
            find_pdfs_from e fs rest (fold visit (rglob_pdf e p) st)
          else find_pdfs_from e fs rest st)"

definition find_pdfs :: "env \<Rightarrow> filesystem \<Rightarrow> string list \<Rightarrow> error + path list" where
  "find_pdfs e fs inputs = find_pdfs_from e fs inputs ({}, [])"





subsection \<open>Log lines\<close>

text \<open>
  One constructor per message of \<^verbatim>\<open>convert_pdf\<close> and \<^verbatim>\<open>_main\<close>, with the values
  the f-string interpolates:
  \<^item> \<open>Error_open n e\<close>: \<^verbatim>\<open>[ERROR] Could not open '{n}': {e}\<close>
  \<^item> \<open>Error_password n\<close>: \<^verbatim>\<open>[ERROR] Password required/failed for '{n}'. Skipping.\<close>
  \<^item> \<open>Warn_no_pages n\<close>: \<^verbatim>\<open>[WARN] '{n}' has 0 pages. Skipping.\<close>
  \<^item> \<open>Skip_exists p\<close>: \<^verbatim>\<open>[SKIP] Exists (use --overwrite): {p}\<close>
  \<^item> \<open>Warn_render n k e\<close>: \<^verbatim>\<open>[WARN] Failed to render/save '{n}' Pg {k}: {e}\<close>
  \<^item> \<open>Ok_single n m\<close>: \<^verbatim>\<open>[OK] {n} -> {m}\<close>
  \<^item> \<open>Ok_multi n d c\<close>: \<^verbatim>\<open>[OK] {n} -> {d}/(Pg 1..{c})\<close>
  \<^item> \<open>Info_no_pdfs\<close>: \<^verbatim>\<open>[INFO] No PDFs found.\<close>
\<close>

datatype log_line =
    Error_open string error
  | Error_password string
  | Warn_no_pages string
  | Skip_exists path
  | Warn_render string nat error
  | Ok_single string string
  | Ok_multi string path nat
  | Info_no_pdfs

datatype level = OK | SKIP | WARN | ERROR | INFO

fun level_of :: "log_line \<Rightarrow> level" where
  "level_of (Error_open n e) = ERROR"
| "level_of (Error_password n) = ERROR"
| "level_of (Warn_no_pages n) = WARN"
| "level_of (Skip_exists p) = SKIP"
| "level_of (Warn_render n k e) = WARN"
| "level_of (Ok_single n m) = OK"
| "level_of (Ok_multi n d c) = OK"
| "level_of Info_no_pdfs = INFO"

subsection \<open>The world: files and the log sink\<close>

record world =
  w_fs :: filesystem
  w_log :: "log_line list"

definition say :: "log_line \<Rightarrow> world \<Rightarrow> world" where
  "say m w = w\<lparr>w_log := w_log w @ [m]\<rparr>"

subsection \<open>Library calls\<close>

text \<open>\<^verbatim>\<open>pymupdf.open(pdf_path)\<close>: only a file that holds a document opens.\<close>

definition pymupdf_open :: "filesystem \<Rightarrow> path \<Rightarrow> error + document" where
  "pymupdf_open fs p =
     (case fs p of
        None \<Rightarrow> Inl FileNotFoundError
      | Some Dir \<Rightarrow> Inl FileDataError
      | Some (File (Pdf d)) \<Rightarrow> Inr d
      | Some (File c) \<Rightarrow> Inl FileDataError)"

text \<open>\<^verbatim>\<open>doc.authenticate(password)\<close>, read as a truth value.\<close>

definition authenticate :: "document \<Rightarrow> string \<Rightarrow> bool" where
  "authenticate d pw = (pw \<in> set (passwords d))"

text \<open>\<^verbatim>\<open>doc.load_page(i).get_pixmap(matrix=zoom, alpha=alpha)\<close>\<close>

definition get_pixmap :: "document \<Rightarrow> nat \<Rightarrow> matrix \<Rightarrow> bool \<Rightarrow> error + pixmap" where
  "get_pixmap d i zoom a =
     (if i < length (pages d) then
        (case pages d ! i of
           Bad_page \<Rightarrow> Inl RenderError
         | Good_page k \<Rightarrow> Inr \<lparr>px_page = k, px_matrix = zoom, px_alpha = a\<rparr>)
      else Inl RenderError)"

text \<open>
  \<^verbatim>\<open>pix.save(out_png)\<close>: the target's directory must exist and the target must not be a
  directory; the file is created or replaced.
\<close>

definition save :: "filesystem \<Rightarrow> path \<Rightarrow> pixmap \<Rightarrow> error + filesystem" where
  "save fs p px =
     (if is_dir fs (parent p) \<and> \<not> is_dir fs p then Inr (fs(p \<mapsto> File (Png px)))
      else Inl SaveError)"

text \<open>
  \<^verbatim>\<open>os.mkdir\<close>, and \<^verbatim>\<open>Path.mkdir(parents, exist_ok)\<close> as \<^verbatim>\<open>pathlib\<close> writes it:
  \<^verbatim>\<open>
  try: os.mkdir(self, mode)
  except FileNotFoundError:
      if not parents or self.parent == self: raise
      self.parent.mkdir(parents=True, exist_ok=True)
      self.mkdir(mode, parents=False, exist_ok=exist_ok)
  except OSError:
      if not exist_ok or not self.is_dir(): raise
  \<close>
\<close>

definition os_mkdir :: "filesystem \<Rightarrow> path \<Rightarrow> error + filesystem" where
  "os_mkdir fs p =
     (if exists fs p then Inl FileExistsError
      else (case fs (parent p) of
              None \<Rightarrow> Inl FileNotFoundError
            | Some (File c) \<Rightarrow> Inl NotADirectoryError
            | Some Dir \<Rightarrow> Inr (fs(p \<mapsto> Dir))))"

function mkdir :: "filesystem \<Rightarrow> path \<Rightarrow> bool \<Rightarrow> bool \<Rightarrow> error + filesystem" where
  "mkdir fs p parents exist_ok =
     (case os_mkdir fs p of
        Inr fs' \<Rightarrow> Inr fs'
      | Inl err \<Rightarrow>
          if err = FileNotFoundError then
            (if \<not> parents \<or> parent p = p then Inl err
             else (case mkdir fs (parent p) True True of
                     Inl err' \<Rightarrow> Inl err'
                   | Inr fs' \<Rightarrow> mkdir fs' p False exist_ok))
          else if \<not> exist_ok \<or> \<not> is_dir fs p then Inl err
          else Inr fs)"
  by pat_completeness auto
termination
proof (relation "measure (\<lambda>(fs, p, parents, exist_ok). 2 * length p + (if parents then 1 else 0))")
  show "wf (measure (\<lambda>(fs, p, parents, exist_ok). 2 * length p + (if parents then 1 else 0)))"
    by simp
next
  fix fs :: filesystem and p :: path and parents exist_ok :: bool and err :: error
  assume "\<not> (\<not> parents \<or> parent p = p)"
  then have "p \<noteq> []" by (auto simp: parent_def)
  then have "length (butlast p) < length p" by (cases p rule: rev_cases) auto
  then show "((fs, parent p, True, True), fs, p, parents, exist_ok)
      \<in> measure (\<lambda>(fs, p, parents, exist_ok). 2 * length p + (if parents then 1 else 0))"
    by (simp add: parent_def)
next
  fix fs fs' :: filesystem and p :: path and parents exist_ok :: bool and err :: error
  assume "\<not> (\<not> parents \<or> parent p = p)"
  then show "((fs', p, False, exist_ok), fs, p, parents, exist_ok)
      \<in> measure (\<lambda>(fs, p, parents, exist_ok). 2 * length p + (if parents then 1 else 0))"
    by simp
qed

declare mkdir.simps [simp del]

subsection \<open>\<^verbatim>\<open>convert_pdf\<close>\<close>

text \<open>\<^verbatim>\<open>str(n)\<close> for a natural number.\<close>

fun str_nat :: "nat \<Rightarrow> string" where
  "str_nat n =
     (if n < 10 then [char_of (48 + n)]
      else str_nat (n div 10) @ [char_of (48 + n mod 10)])"

declare str_nat.simps [simp del]

text \<open>
  \<^verbatim>\<open>scale = max(dpi, 1) / 72.0\<close> and \<^verbatim>\<open>zoom = pymupdf.Matrix(scale, scale)\<close>, in exact
  rational arithmetic: the rounding and the range of Python's floats are outside the
  model.
\<close>

definition render_scale :: "int \<Rightarrow> rat" where
  "render_scale dpi = of_int (max dpi 1) / 72"

definition zoom_matrix :: "int \<Rightarrow> matrix" where
  "zoom_matrix dpi = Matrix (render_scale dpi) (render_scale dpi)"

text \<open>The two target names: \<^verbatim>\<open>f"{stem}.png"\<close> and \<^verbatim>\<open>f"{stem} - Pg {i+1}.png"\<close>.\<close>

definition single_target :: "path \<Rightarrow> path" where
  "single_target pdf_path = parent pdf_path @ [stem pdf_path @ ''.png'']"

definition out_dir_of :: "path \<Rightarrow> path" where
  "out_dir_of pdf_path = parent pdf_path @ [stem pdf_path]"

definition page_target :: "path \<Rightarrow> nat \<Rightarrow> path" where
  "page_target pdf_path i =
     out_dir_of pdf_path @ [stem pdf_path @ '' - Pg '' @ str_nat (i + 1) @ ''.png'']"

text \<open>
  The \<^verbatim>\<open>try: load_page; get_pixmap; save  except Exception\<close> block: the new file system,
  or the exception that was caught.
\<close>

definition render_and_save ::
  "document \<Rightarrow> nat \<Rightarrow> matrix \<Rightarrow> bool \<Rightarrow> path \<Rightarrow> filesystem \<Rightarrow> error + filesystem" where
  "render_and_save d i zoom a out_png fs =
     (case get_pixmap d i zoom a of
        Inl err \<Rightarrow> Inl err
      | Inr pix \<Rightarrow> save fs out_png pix)"

text \<open>One iteration of \<^verbatim>\<open>for i in range(page_count)\<close>; both \<^verbatim>\<open>continue\<close>s end it.\<close>

definition page_step ::
  "path \<Rightarrow> document \<Rightarrow> matrix \<Rightarrow> bool \<Rightarrow> bool \<Rightarrow> nat \<Rightarrow> world \<Rightarrow> world" where
  "page_step pdf_path d zoom a overwrite i w =
     (let out_png = page_target pdf_path i in
      if exists (w_fs w) out_png \<and> \<not> overwrite then say (Skip_exists out_png) w
      else (case render_and_save d i zoom a out_png (w_fs w) of
              Inl err \<Rightarrow> say (Warn_render (name pdf_path) (i + 1) err) w
            | Inr fs' \<Rightarrow> w\<lparr>w_fs := fs'\<rparr>))"

definition page_loop ::
  "path \<Rightarrow> document \<Rightarrow> matrix \<Rightarrow> bool \<Rightarrow> bool \<Rightarrow> nat list \<Rightarrow> world \<Rightarrow> world" where
  "page_loop pdf_path d zoom a overwrite idxs w =
     fold (page_step pdf_path d zoom a overwrite) idxs w"

text \<open>
  The test \<^verbatim>\<open>getattr(doc, "needs_pass", False)\<close> with
  \<^verbatim>\<open>not password or not doc.authenticate(password)\<close> below it: \<^verbatim>\<open>None\<close> and the empty
  string are both false in Python, and \<^verbatim>\<open>or\<close> does not evaluate its second operand
  then.
\<close>

definition password_rejected :: "document \<Rightarrow> string option \<Rightarrow> bool" where
  "password_rejected doc password =
     (needs_pass doc \<and>
      (case password of None \<Rightarrow> True | Some pw \<Rightarrow> pw = [] \<or> \<not> authenticate doc pw))"

text \<open>
  \<^verbatim>\<open>convert_pdf\<close> returns the exception that leaves it, if any, and the world it
  leaves behind.  The \<^verbatim>\<open>finally\<close> block only closes the document, which the model
  does not track.
\<close>

definition convert_pdf ::
  "path \<Rightarrow> int \<Rightarrow> bool \<Rightarrow> bool \<Rightarrow> string option \<Rightarrow> world \<Rightarrow> error option \<times> world" where
  "convert_pdf pdf_path dpi overwrite a password w =
     (case pymupdf_open (w_fs w) pdf_path of
        Inl err \<Rightarrow> (None, say (Error_open (name pdf_path) err) w)
      | Inr doc \<Rightarrow>
          if password_rejected doc password
          then (None, say (Error_password (name pdf_path)) w)
          else
            let page_count = length (pages doc) in
            if page_count = 0 then (None, say (Warn_no_pages (name pdf_path)) w)
            else
              let zoom = zoom_matrix dpi in
              if page_count = 1 then
                (let out_png = single_target pdf_path in
                 if exists (w_fs w) out_png \<and> \<not> overwrite then
                   (None, say (Skip_exists out_png) w)
                 else
                   (case render_and_save doc 0 zoom a out_png (w_fs w) of
                      Inl err \<Rightarrow> (None, say (Warn_render (name pdf_path) 1 err) w)
                    | Inr fs' \<Rightarrow>
                        (None, say (Ok_single (name pdf_path) (name out_png))
                                 (w\<lparr>w_fs := fs'\<rparr>))))
              else
                (let out_dir = out_dir_of pdf_path in
                 case mkdir (w_fs w) out_dir True True of
                   Inl err \<Rightarrow> (Some err, w)
                 | Inr fs' \<Rightarrow>
                     (None, say (Ok_multi (name pdf_path) out_dir page_count)
                              (page_loop pdf_path doc zoom a overwrite [0..<page_count]
                                 (w\<lparr>w_fs := fs'\<rparr>)))))"

subsection \<open>The command line: \<^verbatim>\<open>_main\<close>\<close>

record args =
  arg_inputs :: "string list"
  arg_dpi :: int
  arg_alpha :: bool
  arg_overwrite :: bool
  arg_password :: "string option"

text \<open>\<^verbatim>\<open>for pdf in pdfs: logic.convert_pdf(...)\<close>: an exception ends the loop.\<close>

fun convert_all :: "args \<Rightarrow> path list \<Rightarrow> world \<Rightarrow> error option \<times> world" where
  "convert_all a [] w = (None, w)"
| "convert_all a (pdf # pdfs) w =
     (case convert_pdf pdf (arg_dpi a) (arg_overwrite a) (arg_alpha a) (arg_password a) w of
        (Some err, w') \<Rightarrow> (Some err, w')
      | (None, w') \<Rightarrow> convert_all a pdfs w')"

text \<open>\<^verbatim>\<open>_main\<close> after argument parsing: the returned code, or the exception it raises.\<close>

definition main :: "env \<Rightarrow> args \<Rightarrow> world \<Rightarrow> (error + int) \<times> world" where
  "main e a w =
     (case find_pdfs e (w_fs w) (arg_inputs a) of
        Inl err \<Rightarrow> (Inl err, w)
      | Inr pdfs \<Rightarrow>
          if pdfs = [] then (Inr 1, say Info_no_pdfs w)
          else (case convert_all a pdfs w of
                  (Some err, w') \<Rightarrow> (Inl err, w')
                | (None, w') \<Rightarrow> (Inr 0, w')))"

text \<open>
  \<^verbatim>\<open>raise SystemExit(_main())\<close>: the process exits with the returned code; an exception
  that escapes \<^verbatim>\<open>_main\<close> ends the interpreter with status 1.
\<close>

definition exit_status :: "error + int \<Rightarrow> int" where
  "exit_status r = (case r of Inl err \<Rightarrow> 1 | Inr code \<Rightarrow> code)"

subsection \<open>The graphical front end: the password field\<close>

text \<open>\<^verbatim>\<open>password = self.password_var.get().strip() or None\<close>, with ASCII white space.\<close>

definition is_space :: "char \<Rightarrow> bool" where
  "is_space c = ((of_char c :: nat) \<in> {9, 10, 11, 12, 13, 28, 29, 30, 31, 32})"

definition strip :: "string \<Rightarrow> string" where
  "strip s = rev (dropWhile is_space (rev (dropWhile is_space s)))"

definition gui_password :: "string \<Rightarrow> string option" where
  "gui_password entry = (if strip entry = [] then None else Some (strip entry))"

subsection \<open>Example worlds\<close>

text \<open>
  A directory \<^verbatim>\<open>/d\<close> with \<^verbatim>\<open>a.pdf\<close>, \<^verbatim>\<open>notes.txt\<close> and a sub-directory \<^verbatim>\<open>s\<close>
  holding \<^verbatim>\<open>b.PDF\<close>; the current user's home is \<^verbatim>\<open>/home/me\<close> and no other user
  is known.
\<close>

definition plain_doc :: "nat \<Rightarrow> document" where
  "plain_doc n = \<lparr>needs_pass = False, passwords = [], pages = map Good_page [0..<n]\<rparr>"

definition demo_env :: env where
  "demo_env =
     \<lparr>home_dir = (\<lambda>u. if u = [] then Some [''home'', ''me''] else None),
      cwd = [''d''],
      descendants =
        (\<lambda>p. if p = [''d''] then
                 [[''d'', ''a.pdf''], [''d'', ''notes.txt''], [''d'', ''s''],
                  [''d'', ''s'', ''b.PDF'']]
               else if p = [''d'', ''s''] then [[''d'', ''s'', ''b.PDF'']]
               else [])\<rparr>"


text \<open>
  A directory \<^verbatim>\<open>/d\<close> in which the two-page \<^verbatim>\<open>a.pdf\<close> sits beside a regular file
  named \<^verbatim>\<open>a\<close>, and a one-page \<^verbatim>\<open>b.pdf\<close>.
\<close>

definition blocked_fs :: filesystem where
  "blocked_fs =
     [[] \<mapsto> Dir,
      [''d''] \<mapsto> Dir,
      [''d'', ''a.pdf''] \<mapsto> File (Pdf (plain_doc 2)),
      [''d'', ''a''] \<mapsto> File (Data ''x''),
      [''d'', ''b.pdf''] \<mapsto> File (Pdf (plain_doc 1))]"

definition blocked_args :: args where
  "blocked_args =
     \<lparr>arg_inputs = [''/d/a.pdf'', ''/d/b.pdf''], arg_dpi = 600, arg_alpha = False,
      arg_overwrite = False, arg_password = None\<rparr>"



definition locked_doc :: document where
  "locked_doc = \<lparr>needs_pass = True, passwords = ['''', ''secret''], pages = [Good_page 0]\<rparr>"

definition locked_world :: world where
  "locked_world =
     \<lparr>w_fs = [[] \<mapsto> Dir, [''d''] \<mapsto> Dir, [''d'', ''l.pdf''] \<mapsto> File (Pdf locked_doc)],
      w_log = []\<rparr>"



section \<open>Properties of path discovery\<close>















lemma name_snoc: "name (dir @ [nm]) = nm"
  by (simp add: name_def)















section \<open>Properties of conversion\<close>

lemma w_fs_say: "w_fs (say m w) = w_fs w"
  by (simp add: say_def)

lemma w_log_say: "w_log (say m w) = w_log w @ [m]"
  by (simp add: say_def)


lemma convert_pdf_rejected:
  "pymupdf_open (w_fs w) P = Inr doc \<Longrightarrow> password_rejected doc password \<Longrightarrow>
   convert_pdf P dpi ov a password w = (None, say (Error_password (name P)) w)"
  by (simp add: convert_pdf_def)




lemma length_gt_1: "xs \<noteq> [] \<Longrightarrow> length xs \<noteq> Suc 0 \<Longrightarrow> Suc 0 < length xs"
  by (cases xs) auto



text \<open>The only exception that leaves \<open>convert_pdf\<close> is one raised by \<open>mkdir\<close>.\<close>

lemma convert_pdf_raises_only_from_mkdir:
  assumes "fst (convert_pdf P dpi ov a password w) = Some err"
  shows "\<exists>doc. pymupdf_open (w_fs w) P = Inr doc \<and> 1 < length (pages doc) \<and>
           mkdir (w_fs w) (out_dir_of P) True True = Inl err"
  using assms
  by (auto simp: convert_pdf_def Let_def length_gt_1 split: sum.splits if_splits)







text \<open>
  C4.  An encrypted document for which no password is given, or the given one is not
  accepted: \<open>convert_pdf\<close> logs the password error, leaves every file as it was and
  returns normally, and a batch goes on with the next file.
\<close>

theorem convert_pdf_password_required:
  assumes "pymupdf_open (w_fs w) P = Inr doc" and "needs_pass doc"
    and "password = None \<or> (\<exists>pw. password = Some pw \<and> \<not> authenticate doc pw)"
  shows "convert_pdf P dpi ov a password w = (None, say (Error_password (name P)) w)
    \<and> level_of (Error_password (name P)) = ERROR
    \<and> w_fs (snd (convert_pdf P dpi ov a password w)) = w_fs w
    \<and> w_log (snd (convert_pdf P dpi ov a password w)) = w_log w @ [Error_password (name P)]
    \<and> (\<forall>args rest. arg_password args = password \<longrightarrow>
          convert_all args (P # rest) w =
          convert_all args rest (say (Error_password (name P)) w))"
proof -
  from assms(2,3) have "password_rejected doc password"
    by (auto simp: password_rejected_def)
  from convert_pdf_rejected [OF assms(1) this]
  have c: "\<And>dpi ov a. convert_pdf P dpi ov a password w = (None, say (Error_password (name P)) w)" .
  then show ?thesis by (auto simp: w_fs_say w_log_say)
qed


theorem convert_pdf_password_required_witness:
  "convert_pdf [''d'', ''l.pdf''] 600 False False (Some ''wrong'') locked_world =
     (None, say (Error_password ''l.pdf'') locked_world)
   \<and> w_fs (snd (convert_pdf [''d'', ''l.pdf''] 600 False False (Some ''wrong'') locked_world)) =
       w_fs locked_world
   \<and> convert_pdf [''d'', ''l.pdf''] 600 False False None locked_world =
       (None, say (Error_password ''l.pdf'') locked_world)"
proof -
  let ?P = "[''d'', ''l.pdf'']"
  have h1: "pymupdf_open (w_fs locked_world) ?P = Inr locked_doc"
    by (simp add: locked_world_def pymupdf_open_def)
  have h2: "needs_pass locked_doc"
    by (simp add: locked_doc_def)
  have h3: "Some ''wrong'' = None \<or>
            (\<exists>pw. Some ''wrong'' = Some pw \<and> \<not> authenticate locked_doc pw)"
    by (simp add: authenticate_def locked_doc_def)
  have h4: "None = None \<or> (\<exists>pw. None = Some pw \<and> \<not> authenticate locked_doc pw)"
    by simp
  have nm: "name ?P = ''l.pdf''"
    by (simp add: name_def)
  from convert_pdf_password_required [OF h1 h2 h3, of 600 False False]
  have a: "convert_pdf ?P 600 False False (Some ''wrong'') locked_world =
             (None, say (Error_password (name ?P)) locked_world)"
    and b: "w_fs (snd (convert_pdf ?P 600 False False (Some ''wrong'') locked_world)) =
             w_fs locked_world"
    by blast+
  from convert_pdf_password_required [OF h1 h2 h4, of 600 False False]
  have c: "convert_pdf ?P 600 False False None locked_world =
             (None, say (Error_password (name ?P)) locked_world)"
    by blast
  from a b c show ?thesis by (simp only: nm)
qed

















lemma mkdir_over_file:
  "is_file fs p \<Longrightarrow> mkdir fs p True True = Inl FileExistsError"
  by (subst mkdir.simps)
     (auto simp: os_mkdir_def exists_def is_dir_def is_file_def
           split: option.splits node.splits)





text \<open>
  C9.  The empty string as password is the same as no password: \<open>convert_pdf\<close> behaves
  identically on both, and on an encrypted document it reports the password error
  whatever passwords the document would accept, so authentication is not attempted.
  The graphical front end turns an empty or blank entry into \<^verbatim>\<open>None\<close> and never passes
  the empty string.
\<close>

theorem empty_password_is_no_password:
  "convert_pdf P dpi ov a (Some []) w = convert_pdf P dpi ov a None w
   \<and> (\<forall>doc. password_rejected doc (Some []) = needs_pass doc)
   \<and> (\<forall>doc. pymupdf_open (w_fs w) P = Inr doc \<and> needs_pass doc \<longrightarrow>
        convert_pdf P dpi ov a (Some []) w = (None, say (Error_password (name P)) w))
   \<and> gui_password [] = None
   \<and> (\<forall>entry. (\<forall>c\<in>set entry. is_space c) \<longrightarrow> gui_password entry = None)
   \<and> (\<forall>entry. gui_password entry \<noteq> Some [])"
proof -
  have r: "password_rejected doc (Some []) = needs_pass doc"
          "password_rejected doc None = needs_pass doc" for doc
    by (simp_all add: password_rejected_def)
  have a: "convert_pdf P dpi ov a (Some []) w = convert_pdf P dpi ov a None w"
    by (cases "pymupdf_open (w_fs w) P") (simp_all add: convert_pdf_def r)
  have b: "convert_pdf P dpi ov a (Some []) w = (None, say (Error_password (name P)) w)"
    if "pymupdf_open (w_fs w) P = Inr doc \<and> needs_pass doc" for doc
    using that by (simp add: convert_pdf_rejected r)
  have c: "gui_password entry = None" if "\<forall>c\<in>set entry. is_space c" for entry
  proof -
    from that have dw: "dropWhile is_space entry = []"
      by (simp only: dropWhile_eq_Nil_conv)
    have "strip entry = []" unfolding strip_def dw by simp
    then show ?thesis by (simp add: gui_password_def)
  qed
  have d: "gui_password entry \<noteq> Some []" for entry
    by (simp add: gui_password_def)
  have e: "gui_password [] = None"
    by (simp add: gui_password_def strip_def)
  from r(1) a b c d e show ?thesis by blast
qed

theorem empty_password_is_no_password_witness:
  "authenticate locked_doc []
   \<and> convert_pdf [''d'', ''l.pdf''] 600 False False (Some []) locked_world =
       (None, say (Error_password ''l.pdf'') locked_world)
   \<and> gui_password ''  '' = None"
proof -
  have au: "authenticate locked_doc []"
    by (simp add: authenticate_def locked_doc_def)
  have h: "pymupdf_open (w_fs locked_world) [''d'', ''l.pdf''] = Inr locked_doc \<and>
           needs_pass locked_doc"
    by (simp add: locked_world_def pymupdf_open_def locked_doc_def)
  have sp: "\<forall>c\<in>set ''  ''. is_space c"
    by (simp add: is_space_def)
  have nm: "name [''d'', ''l.pdf''] = ''l.pdf''"
    by (simp add: name_def)
  note t = empty_password_is_no_password [of "[''d'', ''l.pdf'']" 600 False False locked_world]
  from t h have "convert_pdf [''d'', ''l.pdf''] 600 False False (Some []) locked_world =
       (None, say (Error_password (name [''d'', ''l.pdf''])) locked_world)"
    by blast
  then have a: "convert_pdf [''d'', ''l.pdf''] 600 False False (Some []) locked_world =
       (None, say (Error_password ''l.pdf'') locked_world)"
    by (simp only: nm)
  from t sp have b: "gui_password ''  '' = None" by blast
  from au a b show ?thesis by blast
qed









lemma out_dir_not_target: "page_target P i \<noteq> out_dir_of P"
  by (simp add: page_target_def)




text \<open>
  C1.  The claim fails where the output directory cannot be made.  In
  \<open>blocked_fs\<close> the two-page \<^verbatim>\<open>/d/a.pdf\<close> sits beside a regular file \<^verbatim>\<open>/d/a\<close>:
  \<^verbatim>\<open>out_dir.mkdir(parents=True, exist_ok=True)\<close> raises \<^verbatim>\<open>FileExistsError\<close>, no
  handler in \<open>convert_pdf\<close> catches it, and the batch of \<^verbatim>\<open>_main\<close> ends before
  \<^verbatim>\<open>/d/b.pdf\<close>, which converts when it is processed on its own.
\<close>

theorem convert_pdf_mkdir_failure_escapes:
  "find_pdfs demo_env blocked_fs (arg_inputs blocked_args) =
     Inr [[''d'', ''a.pdf''], [''d'', ''b.pdf'']]
   \<and> fst (convert_pdf [''d'', ''a.pdf''] 600 False False None
           \<lparr>w_fs = blocked_fs, w_log = []\<rparr>) = Some FileExistsError
   \<and> fst (main demo_env blocked_args \<lparr>w_fs = blocked_fs, w_log = []\<rparr>) =
       Inl FileExistsError
   \<and> w_fs (snd (main demo_env blocked_args \<lparr>w_fs = blocked_fs, w_log = []\<rparr>))
       [''d'', ''b.png''] = None
   \<and> w_log (snd (main demo_env blocked_args \<lparr>w_fs = blocked_fs, w_log = []\<rparr>)) = []
   \<and> w_log (snd (convert_pdf [''d'', ''b.pdf''] 600 False False None
                    \<lparr>w_fs = blocked_fs, w_log = []\<rparr>)) = [Ok_single ''b.pdf'' ''b.png'']
   \<and> exists (w_fs (snd (convert_pdf [''d'', ''b.pdf''] 600 False False None
                           \<lparr>w_fs = blocked_fs, w_log = []\<rparr>))) [''d'', ''b.png'']"
proof -
  have a: "find_pdfs demo_env blocked_fs (arg_inputs blocked_args) =
     Inr [[''d'', ''a.pdf''], [''d'', ''b.pdf'']]"
    by code_simp
  have b: "fst (convert_pdf [''d'', ''a.pdf''] 600 False False None
           \<lparr>w_fs = blocked_fs, w_log = []\<rparr>) = Some FileExistsError"
    by code_simp
  have c: "fst (main demo_env blocked_args \<lparr>w_fs = blocked_fs, w_log = []\<rparr>) =
       Inl FileExistsError"
    by code_simp
  have d: "w_fs (snd (main demo_env blocked_args \<lparr>w_fs = blocked_fs, w_log = []\<rparr>))
       [''d'', ''b.png''] = None"
    by code_simp
  have e: "w_log (snd (main demo_env blocked_args \<lparr>w_fs = blocked_fs, w_log = []\<rparr>)) = []"
    by code_simp
  have f: "w_log (snd (convert_pdf [''d'', ''b.pdf''] 600 False False None
                    \<lparr>w_fs = blocked_fs, w_log = []\<rparr>)) = [Ok_single ''b.pdf'' ''b.png'']"
    by code_simp
  have g: "exists (w_fs (snd (convert_pdf [''d'', ''b.pdf''] 600 False False None
                           \<lparr>w_fs = blocked_fs, w_log = []\<rparr>))) [''d'', ''b.png'']"
    by code_simp
  from a b c d e f g show ?thesis by blast
qed

text \<open>
  C6.  The claim fails on the same input: two PDFs are discovered, the exception of
  \<open>mkdir\<close> escapes \<^verbatim>\<open>_main\<close>, and the process ends with status 1 without the
  \<^verbatim>\<open>[INFO] No PDFs found.\<close> line.
\<close>

theorem main_exit_status_with_pdfs_found:
  "find_pdfs demo_env blocked_fs (arg_inputs blocked_args) =
     Inr [[''d'', ''a.pdf''], [''d'', ''b.pdf'']]
   \<and> exit_status (fst (main demo_env blocked_args \<lparr>w_fs = blocked_fs, w_log = []\<rparr>)) = 1
   \<and> Info_no_pdfs \<notin>
       set (w_log (snd (main demo_env blocked_args \<lparr>w_fs = blocked_fs, w_log = []\<rparr>)))"
proof -
  have a: "find_pdfs demo_env blocked_fs (arg_inputs blocked_args) =
     Inr [[''d'', ''a.pdf''], [''d'', ''b.pdf'']]"
    by code_simp
  have b: "exit_status (fst (main demo_env blocked_args \<lparr>w_fs = blocked_fs, w_log = []\<rparr>)) = 1"
    by code_simp
  have c: "w_log (snd (main demo_env blocked_args \<lparr>w_fs = blocked_fs, w_log = []\<rparr>)) = []"
    by code_simp
  from a b c show ?thesis by simp
qed

text \<open>What \<^verbatim>\<open>_main\<close> returns when no exception escapes the conversions.\<close>

lemma main_no_pdfs:
  "find_pdfs e (w_fs w) (arg_inputs a) = Inr [] \<Longrightarrow> main e a w = (Inr 1, say Info_no_pdfs w)"
  by (simp add: main_def)

lemma main_some_pdfs:
  "find_pdfs e (w_fs w) (arg_inputs a) = Inr pdfs \<Longrightarrow> pdfs \<noteq> [] \<Longrightarrow>
   fst (convert_all a pdfs w) = None \<Longrightarrow>
   fst (main e a w) = Inr 0 \<and> snd (main e a w) = snd (convert_all a pdfs w)"
  by (cases "convert_all a pdfs w") (simp add: main_def)

end
